theory Spec2Isabelle
  imports Main "HOL-Library.Word"
begin

section \<open>Values of the Go program\<close>

text \<open>
  A Go \<^verbatim>\<open>error\<close> is modelled by its message: \<open>None\<close> is \<^verbatim>\<open>nil\<close>, \<open>Some m\<close> is an
  error whose \<^verbatim>\<open>Error()\<close> is \<open>m\<close>. \<^verbatim>\<open>fmt.Errorf\<close> builds an error from the formatted
  message; the verb \<^verbatim>\<open>%s\<close> inserts a string, the message of an error or the
  \<^verbatim>\<open>String()\<close> of a signal, so a formatted message is a concatenation.
\<close>

type_synonym error = "string option"

definition Errorf :: "string \<Rightarrow> error" where
  "Errorf msg = Some msg"

text \<open>\<^verbatim>\<open>time.Duration\<close> is an \<^verbatim>\<open>int64\<close> count of nanoseconds.\<close>

type_synonym Duration = "64 word"

definition Nanosecond :: Duration where "Nanosecond = 1"
definition Microsecond :: Duration where "Microsecond = 1000 * Nanosecond"
definition Millisecond :: Duration where "Millisecond = 1000 * Microsecond"
definition Second :: Duration where "Second = 1000 * Millisecond"

text \<open>
  \<^verbatim>\<open>context.WithTimeout(context.Background(), d)\<close>: the only contexts the program builds.
\<close>

datatype Context = Background | WithTimeout Context Duration

text \<open>The two signals \<^verbatim>\<open>Run\<close> subscribes to with \<^verbatim>\<open>signal.Notify\<close>.\<close>

datatype Signal = SIGINT | SIGTERM

text \<open>
  The fields of \<^verbatim>\<open>http.Server\<close> that \<^verbatim>\<open>Run\<close> sets. \<^verbatim>\<open>http.Handler\<close> is an interface:
  \<open>None\<close> is the nil handler (the server then uses the default mux). The program
  never writes to a server after building it, so a \<^verbatim>\<open>*http.Server\<close> is modelled by the
  value it points to.
\<close>

record 'h Server =
  Addr :: string
  Handler :: "'h option"
  ReadHeaderTimeout :: Duration
  WriteTimeout :: Duration
  IdleTimeout :: Duration

section \<open>Effects\<close>

text \<open>
  The program logs and calls into \<^verbatim>\<open>net/http\<close> and \<^verbatim>\<open>os/signal\<close>. The process state
  holds the state of that outside world (of any type \<open>'w\<close>) and the trace of what the
  program did to it, in order: a log line, or a call on a server.
\<close>

datatype 'h event =
    Log string
  | NotifyCall "Signal list"
  | ListenAndServeCall "'h Server"
  | ShutdownCall "'h Server" Context
  | CloseCall "'h Server"

record ('h, 'w) proc =
  world :: 'w
  trace :: "'h event list"

text \<open>
  The library operations, which are not part of the repository, are parameters of the
  model. \<open>ListenAndServe\<close> and \<open>Interrupt\<close> (a receive on the channel that
  \<^verbatim>\<open>signal.Notify\<close> feeds) block: \<open>None\<close> says the operation has not completed in
  this world. \<open>SelectStop\<close> is the choice Go's \<^verbatim>\<open>select\<close> makes when both of its cases
  are ready. \<open>Signal_String\<close> is the \<^verbatim>\<open>String()\<close> method of a signal.
\<close>

record ('h, 'w) Extern =
  ListenAndServe :: "'h Server \<Rightarrow> 'w \<Rightarrow> (error \<times> 'w) option"
  Shutdown :: "'h Server \<Rightarrow> Context \<Rightarrow> 'w \<Rightarrow> error \<times> 'w"
  Close :: "'h Server \<Rightarrow> 'w \<Rightarrow> error \<times> 'w"
  Interrupt :: "'w \<Rightarrow> (Signal \<times> 'w) option"
  SelectStop :: "'w \<Rightarrow> bool"
  Signal_String :: "Signal \<Rightarrow> string"

definition emit :: "'h event \<Rightarrow> ('h, 'w) proc \<Rightarrow> ('h, 'w) proc" where
  "emit e p = p\<lparr>trace := trace p @ [e]\<rparr>"

definition Printf :: "string \<Rightarrow> ('h, 'w) proc \<Rightarrow> ('h, 'w) proc" where
  "Printf msg p = emit (Log msg) p"

text \<open>\<^verbatim>\<open>log.Print(err)\<close> prints the message of the error, and \<^verbatim>\<open><nil>\<close> for nil.\<close>

definition Print :: "error \<Rightarrow> ('h, 'w) proc \<Rightarrow> ('h, 'w) proc" where
  "Print err p = emit (Log (case err of None \<Rightarrow> ''<nil>'' | Some m \<Rightarrow> m)) p"

definition call_Shutdown ::
  "('h, 'w) Extern \<Rightarrow> 'h Server \<Rightarrow> Context \<Rightarrow> ('h, 'w) proc \<Rightarrow> error \<times> ('h, 'w) proc" where
  "call_Shutdown ext server ctx p =
     (case Shutdown ext server ctx (world p) of
        (err, w) \<Rightarrow> (err, (emit (ShutdownCall server ctx) p)\<lparr>world := w\<rparr>))"

definition call_Close ::
  "('h, 'w) Extern \<Rightarrow> 'h Server \<Rightarrow> ('h, 'w) proc \<Rightarrow> error \<times> ('h, 'w) proc" where
  "call_Close ext server p =
     (case Close ext server (world p) of
        (err, w) \<Rightarrow> (err, (emit (CloseCall server) p)\<lparr>world := w\<rparr>))"

text \<open>What a computation added to the trace of the state it started in.\<close>

definition emitted :: "('h, 'w) proc \<Rightarrow> ('h, 'w) proc \<Rightarrow> 'h event list" where
  "emitted p p' = drop (length (trace p)) (trace p')"

fun is_Close :: "'h event \<Rightarrow> bool" where
  "is_Close (CloseCall _) = True"
| "is_Close _ = False"

fun is_Log :: "'h event \<Rightarrow> bool" where
  "is_Log (Log _) = True"
| "is_Log _ = False"

definition calls :: "'h event list \<Rightarrow> 'h event list" where
  "calls evs = filter (\<lambda>e. \<not> is_Log e) evs"

section \<open>The group and its workers\<close>

text \<open>
  A worker is a \<^verbatim>\<open>func(stop <-chan struct{}) error\<close>. It is modelled by its run to
  completion: given whether the stop channel is closed and the process state, it is
  either still blocked (\<open>None\<close>) or returns an error and the state it leaves. What a
  worker does before it blocks is recorded in the trace when it returns.
\<close>

type_synonym ('h, 'w) worker = "bool \<Rightarrow> ('h, 'w) proc \<Rightarrow> (error \<times> ('h, 'w) proc) option"

text \<open>
  Modelled from the spec: \<^verbatim>\<open>workgroup.Group\<close> (github.com/heptio/workgroup) is imported by
  the repository and not part of it. Section 3 of the spec: the group owns its tasks, which
  have no identity beyond registration order; \<^verbatim>\<open>Add(task)\<close> registers a task.
\<close>

record ('h, 'w) workgroup_Group =
  fn :: "('h, 'w) worker list"

definition workgroup_Add ::
  "('h, 'w) worker \<Rightarrow> ('h, 'w) workgroup_Group \<Rightarrow> ('h, 'w) workgroup_Group" where
  "workgroup_Add f wg = wg\<lparr>fn := fn wg @ [f]\<rparr>"

record ('h, 'w) Group =
  Group :: "('h, 'w) workgroup_Group"
  Handler :: "'h option"
  DebugServerAddr :: string
  ServiceServerAddr :: string
  ShutdownTimeout :: Duration
  ServiceReadHeaderTimeout :: Duration
  ServiceWriteTimeout :: Duration
  ServiceIdleTimeout :: Duration

text \<open>
  \<^verbatim>\<open>NewGroup\<close> leaves the embedded \<^verbatim>\<open>workgroup.Group\<close> at its zero value: no worker is
  registered.
\<close>

definition NewGroup :: "'h option \<Rightarrow> ('h, 'w) Group" where
  "NewGroup handler =
     \<lparr> Group = \<lparr> fn = [] \<rparr>,
       Handler = handler,
       DebugServerAddr = '':6060'',
       ServiceServerAddr = '':8080'',
       ShutdownTimeout = 30 * Second,
       ServiceReadHeaderTimeout = 30 * Second,
       ServiceWriteTimeout = 30 * Second,
       ServiceIdleTimeout = 30 * Second \<rparr>"

text \<open>\<^verbatim>\<open>g.Add(f)\<close> is the promoted method of the embedded group.\<close>

definition Add :: "('h, 'w) worker \<Rightarrow> ('h, 'w) Group \<Rightarrow> ('h, 'w) Group" where
  "Add f g = g\<lparr>Group := workgroup_Add f (Group g)\<rparr>"

subsection \<open>shutdown\<close>

text \<open>
  \<^verbatim>\<open>func (g *Group) shutdown(server *http.Server, name string) error\<close>. The deferred
  \<^verbatim>\<open>cancel()\<close> only releases the timer of the context and is not modelled.
\<close>

definition shutdown ::
  "('h, 'w) Extern \<Rightarrow> ('h, 'w) Group \<Rightarrow> 'h Server \<Rightarrow> string \<Rightarrow> ('h, 'w) proc
     \<Rightarrow> error \<times> ('h, 'w) proc" where
  "shutdown ext g server name p0 =
     (let p1 = Printf (''Attempting graceful shutdown of '' @ name @ '' on workgroup termination'') p0;
          ctx = WithTimeout Background (ShutdownTimeout g)
      in case call_Shutdown ext server ctx p1 of
        (Some e, p2) \<Rightarrow>
          (let p3 = Printf (''Error on graceful shutdown of '' @ name @ '': '' @ e) p2;
               p4 = Printf (''Attempting hard shutdown of '' @ name) p3
           in case call_Close ext server p4 of
             (Some e', p5) \<Rightarrow>
               (let err = Errorf (''error while doing hard shutdown of '' @ name @ '': '' @ e')
                in (err, Print err p5))
           | (None, p5) \<Rightarrow>
               (let err = Errorf (name @ '' on workgroup hard shut down successful'')
                in (err, Print err p5)))
      | (None, p2) \<Rightarrow>
          (let err = Errorf (name @ '' on workgroup graceful shut down successful'')
           in (err, Print err p2)))"

subsection \<open>The workers of Run\<close>

definition call_ListenAndServe ::
  "('h, 'w) Extern \<Rightarrow> 'h Server \<Rightarrow> ('h, 'w) proc \<Rightarrow> (error \<times> ('h, 'w) proc) option" where
  "call_ListenAndServe ext server p =
     (case ListenAndServe ext server (world p) of
        None \<Rightarrow> None
      | Some (err, w) \<Rightarrow> Some (err, (emit (ListenAndServeCall server) p)\<lparr>world := w\<rparr>))"

text \<open>The two \<^verbatim>\<open>http.Server\<close> values that \<^verbatim>\<open>Run\<close> builds from the group's configuration.\<close>

definition debugServer :: "('h, 'w) Group \<Rightarrow> 'h Server" where
  "debugServer g =
     \<lparr> Addr = DebugServerAddr g,
       Server.Handler = None,
       ReadHeaderTimeout = 30 * Second,
       WriteTimeout = 300 * Second,
       IdleTimeout = 30 * Second \<rparr>"

definition serviceServer :: "('h, 'w) Group \<Rightarrow> 'h Server" where
  "serviceServer g =
     \<lparr> Addr = ServiceServerAddr g,
       Server.Handler = Handler g,
       ReadHeaderTimeout = ServiceReadHeaderTimeout g,
       WriteTimeout = ServiceWriteTimeout g,
       IdleTimeout = ServiceIdleTimeout g \<rparr>"

text \<open>
  The five closures that \<^verbatim>\<open>Run\<close> passes to \<^verbatim>\<open>g.Add\<close>, named after the comments that
  introduce them. They capture \<open>g\<close> and read its configuration only, which \<^verbatim>\<open>Add\<close> does
  not change. \<^verbatim>\<open><-stop\<close> blocks until the stop channel is closed.
\<close>

definition debug_listener ::
  "('h, 'w) Extern \<Rightarrow> ('h, 'w) Group \<Rightarrow> 'h Server \<Rightarrow> ('h, 'w) worker" where
  "debug_listener ext g server =
     (\<lambda>stop p0.
        let p1 = Printf (''Starting debug server on '' @ DebugServerAddr g) p0
        in call_ListenAndServe ext server p1)"

definition debug_closer ::
  "('h, 'w) Extern \<Rightarrow> ('h, 'w) Group \<Rightarrow> 'h Server \<Rightarrow> ('h, 'w) worker" where
  "debug_closer ext g server =
     (\<lambda>stop p0.
        if stop then Some (shutdown ext g server ''debug HTTP server'' p0) else None)"

definition service_listener ::
  "('h, 'w) Extern \<Rightarrow> ('h, 'w) Group \<Rightarrow> 'h Server \<Rightarrow> ('h, 'w) worker" where
  "service_listener ext g server =
     (\<lambda>stop p0.
        let p1 = Printf (''Starting service HTTP server on '' @ ServiceServerAddr g) p0
        in call_ListenAndServe ext server p1)"

definition service_closer ::
  "('h, 'w) Extern \<Rightarrow> ('h, 'w) Group \<Rightarrow> 'h Server \<Rightarrow> ('h, 'w) worker" where
  "service_closer ext g server =
     (\<lambda>stop p0.
        if stop then Some (shutdown ext g server ''service HTTP server'' p0) else None)"

text \<open>
  The \<^verbatim>\<open>select\<close> of the signal watcher takes a case that is ready; when the stop
  channel is closed and a signal is waiting, \<open>SelectStop\<close> decides; when neither is
  ready, the worker is blocked.
\<close>

definition signal_watcher :: "('h, 'w) Extern \<Rightarrow> ('h, 'w) worker" where
  "signal_watcher ext =
     (\<lambda>stop p0.
        let p1 = emit (NotifyCall [SIGINT, SIGTERM]) p0;
            p2 = Printf ''Watching for OS interrupt signals...'' p1
        in case Interrupt ext (world p2) of
             None \<Rightarrow>
               if stop
               then Some (Errorf ''shutting down OS signal watcher on workgroup stop'', p2)
               else None
           | Some (i, w) \<Rightarrow>
               if stop \<and> SelectStop ext (world p2)
               then Some (Errorf ''shutting down OS signal watcher on workgroup stop'', p2)
               else
                 (let p3 = Printf (''Received OS signal '' @ Signal_String ext i
                                     @ ''; beginning shutdown...'') (p2\<lparr>world := w\<rparr>)
                  in Some (Errorf (''stopping on OS signal '' @ Signal_String ext i), p3)))"

section \<open>Running the group\<close>

text \<open>
  Modelled from the spec: \<^verbatim>\<open>workgroup.Group.Run\<close> (github.com/heptio/workgroup) is imported
  by the repository and not part of it. Section 4.1 of the spec gives its algorithm: every
  registered task is started with a view of the Stop Signal; when a task returns, its
  outcome is recorded in the result slot if the slot is still empty, and the Stop Signal is
  raised; \<^verbatim>\<open>Run\<close> blocks until every task has returned and returns the recorded result.

  Concurrency is modelled by interleaving. The state of a run holds the tasks that have
  not returned yet, the Stop Signal, the result slot (\<open>None\<close> while it is empty), the
  process state, and the terminations so far, in order. A schedule is the sequence in
  which tasks are given the chance to return: a task that is still blocked, or has
  returned already, leaves the state as it is.
\<close>

record ('h, 'w) run_state =
  running :: "nat list"
  stopped :: bool
  slot :: "error option"
  state :: "('h, 'w) proc"
  history :: "(nat \<times> error) list"

definition workgroup_start ::
  "('h, 'w) workgroup_Group \<Rightarrow> ('h, 'w) proc \<Rightarrow> ('h, 'w) run_state" where
  "workgroup_start wg p =
     \<lparr> running = [0..<length (fn wg)], stopped = False, slot = None, state = p, history = [] \<rparr>"

definition task_returns :: "nat \<Rightarrow> error \<Rightarrow> ('h, 'w) run_state \<Rightarrow> ('h, 'w) run_state" where
  "task_returns i e s =
     s\<lparr> running := removeAll i (running s),
        slot := (case slot s of None \<Rightarrow> Some e | Some r \<Rightarrow> Some r),
        stopped := True,
        history := history s @ [(i, e)] \<rparr>"

definition workgroup_step ::
  "('h, 'w) workgroup_Group \<Rightarrow> nat \<Rightarrow> ('h, 'w) run_state \<Rightarrow> ('h, 'w) run_state" where
  "workgroup_step wg i s =
     (if i \<in> set (running s)
      then (case (fn wg ! i) (stopped s) (state s) of
              None \<Rightarrow> s
            | Some (e, p) \<Rightarrow> task_returns i e (s\<lparr>state := p\<rparr>))
      else s)"

definition workgroup_exec ::
  "('h, 'w) workgroup_Group \<Rightarrow> nat list \<Rightarrow> ('h, 'w) run_state \<Rightarrow> ('h, 'w) run_state" where
  "workgroup_exec wg sched s = fold (workgroup_step wg) sched s"

text \<open>
  Modelled from the spec: steps 4 and 5 of section 4.1, for the \<^verbatim>\<open>Run\<close> of
  \<^verbatim>\<open>workgroup.Group\<close>, which is not part of the repository. The result of
  \<open>workgroup_Run\<close> is \<open>None\<close> while the caller is still blocked, and the result slot
  with the process state once every task has returned.
\<close>

definition workgroup_Run ::
  "('h, 'w) workgroup_Group \<Rightarrow> nat list \<Rightarrow> ('h, 'w) proc
     \<Rightarrow> (error option \<times> ('h, 'w) proc) option" where
  "workgroup_Run wg sched p =
     (let s = workgroup_exec wg sched (workgroup_start wg p)
      in if running s = [] then Some (slot s, state s) else None)"

text \<open>
  \<^verbatim>\<open>func (g *Group) Run() error\<close>. The method appends to the group behind its receiver:
  the model returns the group as \<^verbatim>\<open>Run\<close> leaves it, with what the embedded group's
  \<^verbatim>\<open>Run\<close> returns under the schedule.
\<close>

definition Run ::
  "('h, 'w) Extern \<Rightarrow> ('h, 'w) Group \<Rightarrow> nat list \<Rightarrow> ('h, 'w) proc
     \<Rightarrow> ('h, 'w) Group \<times> (error option \<times> ('h, 'w) proc) option" where
  "Run ext g sched p0 =
     (let p1 = Printf ''Service starting'' p0;
          g1 = Add (debug_listener ext g (debugServer g)) g;
          g2 = Add (debug_closer ext g (debugServer g)) g1;
          g3 = Add (service_listener ext g (serviceServer g)) g2;
          g4 = Add (service_closer ext g (serviceServer g)) g3;
          g5 = Add (signal_watcher ext) g4
      in (g5, workgroup_Run (Group g5) sched p1))"

text \<open>The outcome of the first termination of a history, if there is one.\<close>

definition first_outcome :: "(nat \<times> error) list \<Rightarrow> error option" where
  "first_outcome h = (case h of [] \<Rightarrow> None | (i, e) # _ \<Rightarrow> Some e)"

section \<open>An example environment\<close>

text \<open>
  A small world for concrete runs: the state of the outside world counts the stop calls
  (\<open>Shutdown\<close> and \<open>Close\<close>) made so far, which return the given errors; a listener
  returns \<^verbatim>\<open>http.ErrServerClosed\<close> once a stop call has been made; the given signal, if
  any, is waiting on the interrupt channel.
\<close>

definition example_ext :: "error \<Rightarrow> error \<Rightarrow> Signal option \<Rightarrow> (unit, nat) Extern" where
  "example_ext graceful forced sig =
     \<lparr> ListenAndServe = (\<lambda>server w. if w = 0 then None else Some (Some ''http: Server closed'', w)),
       Shutdown = (\<lambda>server ctx w. (graceful, Suc w)),
       Close = (\<lambda>server w. (forced, Suc w)),
       Interrupt = (\<lambda>w. case sig of None \<Rightarrow> None | Some i \<Rightarrow> Some (i, w)),
       SelectStop = (\<lambda>w. True),
       Signal_String = (\<lambda>i. case i of SIGINT \<Rightarrow> ''interrupt'' | SIGTERM \<Rightarrow> ''terminated'') \<rparr>"

definition example_group :: "(unit, nat) Group" where
  "example_group = NewGroup None"

definition example_proc :: "(unit, nat) proc" where
  "example_proc = \<lparr> world = 0, trace = [] \<rparr>"

text \<open>
  A task of the caller's: it logs a line and returns nil at once, without waiting for the
  stop channel.
\<close>

definition example_task :: "(unit, nat) worker" where
  "example_task = (\<lambda>stop p0. Some (None, Printf ''task done'' p0))"

section \<open>The shutdown escalator\<close>

text \<open>
  The two paths of \<open>shutdown\<close>, with the state each leaves: the world after the last
  call on the server, and the trace extended by the log lines and calls of the path.
\<close>

lemma shutdown_graceful_path:
  assumes "Shutdown ext server (WithTimeout Background (ShutdownTimeout g)) (world p) = (None, w)"
  shows "shutdown ext g server name p =
      (Some (name @ '' on workgroup graceful shut down successful''),
       p\<lparr>world := w, trace := trace p @
          [Log (''Attempting graceful shutdown of '' @ name @ '' on workgroup termination''),
           ShutdownCall server (WithTimeout Background (ShutdownTimeout g)),
           Log (name @ '' on workgroup graceful shut down successful'')]\<rparr>)"
  using assms
  by (simp add: shutdown_def call_Shutdown_def Printf_def Print_def Errorf_def emit_def)

lemma shutdown_forced_path:
  assumes "Shutdown ext server (WithTimeout Background (ShutdownTimeout g)) (world p) = (Some e, w)"
    and "Close ext server w = (cerr, w')"
  shows "shutdown ext g server name p =
      ((case cerr of
          None \<Rightarrow> Some (name @ '' on workgroup hard shut down successful'')
        | Some e' \<Rightarrow> Some (''error while doing hard shutdown of '' @ name @ '': '' @ e')),
       p\<lparr>world := w', trace := trace p @
          [Log (''Attempting graceful shutdown of '' @ name @ '' on workgroup termination''),
           ShutdownCall server (WithTimeout Background (ShutdownTimeout g)),
           Log (''Error on graceful shutdown of '' @ name @ '': '' @ e),
           Log (''Attempting hard shutdown of '' @ name),
           CloseCall server,
           Log (case cerr of
                  None \<Rightarrow> name @ '' on workgroup hard shut down successful''
                | Some e' \<Rightarrow> ''error while doing hard shutdown of '' @ name @ '': '' @ e')]\<rparr>)"
  using assms
  by (simp add: shutdown_def call_Shutdown_def call_Close_def Printf_def Print_def Errorf_def
      emit_def split: option.splits)

lemma shutdown_result:
  "fst (shutdown ext g server name p) =
     Some (case fst (Shutdown ext server (WithTimeout Background (ShutdownTimeout g)) (world p)) of
             None \<Rightarrow> name @ '' on workgroup graceful shut down successful''
           | Some e \<Rightarrow>
               (case fst (Close ext server
                       (snd (Shutdown ext server (WithTimeout Background (ShutdownTimeout g))
                               (world p)))) of
                  None \<Rightarrow> name @ '' on workgroup hard shut down successful''
                | Some e' \<Rightarrow> ''error while doing hard shutdown of '' @ name @ '': '' @ e'))"
proof -
  obtain gerr w where
    g: "Shutdown ext server (WithTimeout Background (ShutdownTimeout g)) (world p) = (gerr, w)"
    by (cases "Shutdown ext server (WithTimeout Background (ShutdownTimeout g)) (world p)")
  obtain cerr w' where c: "Close ext server w = (cerr, w')"
    by (cases "Close ext server w")
  show ?thesis
  proof (cases gerr)
    case None
    with g show ?thesis by (simp add: shutdown_graceful_path)
  next
    case (Some e)
    with g c show ?thesis by (simp add: shutdown_forced_path split: option.splits)
  qed
qed

lemma emitted_append: "emitted p (p\<lparr>world := w, trace := trace p @ evs\<rparr>) = evs"
  by (simp add: emitted_def)

text \<open>The calls of \<open>shutdown\<close>, in order, without the log lines.\<close>

lemma shutdown_calls:
  "calls (emitted q (snd (shutdown ext g server name q))) =
     ShutdownCall server (WithTimeout Background (ShutdownTimeout g)) #
       (case fst (Shutdown ext server (WithTimeout Background (ShutdownTimeout g)) (world q)) of
          None \<Rightarrow> []
        | Some e \<Rightarrow> [CloseCall server])"
proof -
  obtain gerr w where
    g: "Shutdown ext server (WithTimeout Background (ShutdownTimeout g)) (world q) = (gerr, w)"
    by (cases "Shutdown ext server (WithTimeout Background (ShutdownTimeout g)) (world q)")
  obtain cerr w' where c: "Close ext server w = (cerr, w')"
    by (cases "Close ext server w")
  show ?thesis
  proof (cases gerr)
    case None
    with g show ?thesis by (simp add: shutdown_graceful_path emitted_append calls_def)
  next
    case (Some e)
    with g c show ?thesis by (simp add: shutdown_forced_path emitted_append calls_def)
  qed
qed

text \<open>
  C2. \<open>shutdown\<close> first calls the server's graceful \<^verbatim>\<open>Shutdown\<close> under a context whose
  timeout is the group's \<open>ShutdownTimeout\<close>. If that call returns an error \<open>e\<close>, the
  graceful failure is logged, \<^verbatim>\<open>Close\<close> (which takes no deadline) is called next, on the
  same server and in the world \<^verbatim>\<open>Shutdown\<close> left; it is called exactly once and nothing
  is called after it; the error returned, which is also the last log line, is built from
  the result of \<^verbatim>\<open>Close\<close>.
\<close>

theorem shutdown_escalation:
  assumes "Shutdown ext server (WithTimeout Background (ShutdownTimeout g)) (world p) = (gerr, w)"
    and "Close ext server w = (cerr, w')"
  shows "take 1 (calls (emitted p (snd (shutdown ext g server name p))))
           = [ShutdownCall server (WithTimeout Background (ShutdownTimeout g))] \<and>
         (\<forall>e. gerr = Some e \<longrightarrow>
            emitted p (snd (shutdown ext g server name p)) =
              [Log (''Attempting graceful shutdown of '' @ name @ '' on workgroup termination''),
               ShutdownCall server (WithTimeout Background (ShutdownTimeout g)),
               Log (''Error on graceful shutdown of '' @ name @ '': '' @ e),
               Log (''Attempting hard shutdown of '' @ name),
               CloseCall server,
               Log (case cerr of
                      None \<Rightarrow> name @ '' on workgroup hard shut down successful''
                    | Some e' \<Rightarrow> ''error while doing hard shutdown of '' @ name @ '': '' @ e')] \<and>
            length (filter is_Close (emitted p (snd (shutdown ext g server name p)))) = 1 \<and>
            world (snd (shutdown ext g server name p)) = w' \<and>
            fst (shutdown ext g server name p) =
              (case cerr of
                 None \<Rightarrow> Some (name @ '' on workgroup hard shut down successful'')
               | Some e' \<Rightarrow> Some (''error while doing hard shutdown of '' @ name @ '': '' @ e')))"
proof (cases gerr)
  case None
  with assms(1) show ?thesis
    by (simp add: shutdown_graceful_path emitted_append calls_def)
next
  case (Some e)
  with assms show ?thesis
    by (simp add: shutdown_forced_path emitted_append calls_def)
qed

theorem shutdown_escalation_witness:
  "Shutdown (example_ext (Some ''context deadline exceeded'') None None) (serviceServer example_group)
      (WithTimeout Background (ShutdownTimeout example_group)) (world example_proc)
     = (Some ''context deadline exceeded'', 1) \<and>
   Close (example_ext (Some ''context deadline exceeded'') None None) (serviceServer example_group) 1
     = (None, 2) \<and>
   emitted example_proc
      (snd (shutdown (example_ext (Some ''context deadline exceeded'') None None) example_group
              (serviceServer example_group) ''service HTTP server'' example_proc)) =
     [Log ''Attempting graceful shutdown of service HTTP server on workgroup termination'',
      ShutdownCall (serviceServer example_group)
        (WithTimeout Background (ShutdownTimeout example_group)),
      Log ''Error on graceful shutdown of service HTTP server: context deadline exceeded'',
      Log ''Attempting hard shutdown of service HTTP server'',
      CloseCall (serviceServer example_group),
      Log ''service HTTP server on workgroup hard shut down successful''] \<and>
   fst (shutdown (example_ext (Some ''context deadline exceeded'') None None) example_group
          (serviceServer example_group) ''service HTTP server'' example_proc)
     = Some ''service HTTP server on workgroup hard shut down successful''"
  using shutdown_escalation [of "example_ext (Some ''context deadline exceeded'') None None"
      "serviceServer example_group" example_group example_proc
      "Some ''context deadline exceeded''" 1 None 2 "''service HTTP server''"]
  by (simp add: example_ext_def example_proc_def)

text \<open>
  C3, as amended. When the graceful \<^verbatim>\<open>Shutdown\<close> returns nil, \<open>shutdown\<close> returns a
  non-nil error whose message reports the success:
  \<^verbatim>\<open><name> on workgroup graceful shut down successful\<close>.
\<close>

theorem shutdown_graceful_outcome:
  assumes "fst (Shutdown ext server (WithTimeout Background (ShutdownTimeout g)) (world p)) = None"
  shows "fst (shutdown ext g server name p)
           = Some (name @ '' on workgroup graceful shut down successful'')"
  using assms by (simp add: shutdown_result)

theorem shutdown_graceful_outcome_witness:
  "fst (Shutdown (example_ext None None None) (serviceServer example_group)
          (WithTimeout Background (ShutdownTimeout example_group)) (world example_proc)) = None \<and>
   fst (shutdown (example_ext None None None) example_group (serviceServer example_group)
          ''service HTTP server'' example_proc)
     = Some ''service HTTP server on workgroup graceful shut down successful''"
  using shutdown_graceful_outcome [of "example_ext None None None" "serviceServer example_group"
      example_group example_proc "''service HTTP server''"]
  by (simp add: example_ext_def)

text \<open>
  C3 as the spec states it (the outcome of a graceful stop that succeeds is a no-error
  result) fails: in the example world the graceful \<^verbatim>\<open>Shutdown\<close> of the debug server
  returns nil, and \<open>shutdown\<close> returns an error.
\<close>

theorem shutdown_graceful_success_counterexample:
  "fst (Shutdown (example_ext None None None) (debugServer example_group)
          (WithTimeout Background (ShutdownTimeout example_group)) (world example_proc)) = None \<and>
   fst (shutdown (example_ext None None None) example_group (debugServer example_group)
          ''debug HTTP server'' example_proc) \<noteq> None \<and>
   fst (shutdown (example_ext None None None) example_group (debugServer example_group)
          ''debug HTTP server'' example_proc)
     = Some ''debug HTTP server on workgroup graceful shut down successful''"
  by (simp add: shutdown_result example_ext_def)

text \<open>
  C4. When the graceful \<^verbatim>\<open>Shutdown\<close> returns nil, \<open>shutdown\<close> makes no call of
  \<^verbatim>\<open>Close\<close>, on any server: the graceful \<^verbatim>\<open>Shutdown\<close> is its only call.
\<close>

theorem shutdown_graceful_never_closes:
  assumes "fst (Shutdown ext server (WithTimeout Background (ShutdownTimeout g)) (world p)) = None"
  shows "filter is_Close (emitted p (snd (shutdown ext g server name p))) = [] \<and>
         calls (emitted p (snd (shutdown ext g server name p)))
           = [ShutdownCall server (WithTimeout Background (ShutdownTimeout g))]"
proof -
  obtain w where
    "Shutdown ext server (WithTimeout Background (ShutdownTimeout g)) (world p) = (None, w)"
    using assms
    by (cases "Shutdown ext server (WithTimeout Background (ShutdownTimeout g)) (world p)") simp
  then show ?thesis
    by (simp add: shutdown_graceful_path emitted_append calls_def)
qed

theorem shutdown_graceful_never_closes_witness:
  "fst (Shutdown (example_ext None (Some ''close failed'') None) (debugServer example_group)
          (WithTimeout Background (ShutdownTimeout example_group)) (world example_proc)) = None \<and>
   filter is_Close (emitted example_proc
      (snd (shutdown (example_ext None (Some ''close failed'') None) example_group
              (debugServer example_group) ''debug HTTP server'' example_proc))) = [] \<and>
   calls (emitted example_proc
      (snd (shutdown (example_ext None (Some ''close failed'') None) example_group
              (debugServer example_group) ''debug HTTP server'' example_proc)))
     = [ShutdownCall (debugServer example_group)
          (WithTimeout Background (ShutdownTimeout example_group))]"
  using shutdown_graceful_never_closes [of "example_ext None (Some ''close failed'') None"
      "debugServer example_group" example_group example_proc "''debug HTTP server''"]
  by (simp add: example_ext_def)

text \<open>
  C8. \<open>shutdown\<close> never returns nil. Its result is one of three errors: after a
  graceful \<^verbatim>\<open>Shutdown\<close> that returned nil, the message that the graceful shut down was
  successful; after a \<^verbatim>\<open>Close\<close> that returned nil, the message that the hard shut down
  was successful; otherwise the error of \<^verbatim>\<open>Close\<close>, wrapped.
\<close>

theorem shutdown_never_nil:
  "fst (shutdown ext g server name p) \<noteq> None \<and>
   fst (shutdown ext g server name p) =
     Some (case fst (Shutdown ext server (WithTimeout Background (ShutdownTimeout g)) (world p)) of
             None \<Rightarrow> name @ '' on workgroup graceful shut down successful''
           | Some e \<Rightarrow>
               (case fst (Close ext server
                       (snd (Shutdown ext server (WithTimeout Background (ShutdownTimeout g))
                               (world p)))) of
                  None \<Rightarrow> name @ '' on workgroup hard shut down successful''
                | Some e' \<Rightarrow> ''error while doing hard shutdown of '' @ name @ '': '' @ e'))"
  by (simp add: shutdown_result)

section \<open>NewGroup and the workers registered by Run\<close>

text \<open>
  C9. \<open>NewGroup h\<close> is a group whose handler is \<open>h\<close>, whose four timeouts are
  \<^verbatim>\<open>30 * time.Second\<close> (30 seconds, in nanoseconds), whose addresses are \<^verbatim>\<open>:6060\<close> and
  \<^verbatim>\<open>:8080\<close>, and in which no worker is registered. \<open>NewGroup\<close> is a function of the
  handler alone: it does not touch the process state, so it starts nothing.
\<close>

theorem NewGroup_defaults:
  "Handler (NewGroup h) = h \<and>
   ShutdownTimeout (NewGroup h) = 30 * Second \<and>
   ServiceReadHeaderTimeout (NewGroup h) = 30 * Second \<and>
   ServiceWriteTimeout (NewGroup h) = 30 * Second \<and>
   ServiceIdleTimeout (NewGroup h) = 30 * Second \<and>
   sint (30 * Second) = 30 * 10 ^ 9 \<and>
   DebugServerAddr (NewGroup h) = '':6060'' \<and>
   ServiceServerAddr (NewGroup h) = '':8080'' \<and>
   fn (Group (NewGroup h)) = []"
  by (simp add: NewGroup_def Second_def Millisecond_def Microsecond_def Nanosecond_def)

lemma Run_workers:
  "fn (Group (fst (Run ext g sched p))) =
     fn (Group g) @
       [debug_listener ext g (debugServer g),
        debug_closer ext g (debugServer g),
        service_listener ext g (serviceServer g),
        service_closer ext g (serviceServer g),
        signal_watcher ext]"
  by (simp add: Run_def Add_def workgroup_Add_def)

lemma Run_delegates:
  "snd (Run ext g sched p) =
     workgroup_Run (Group (fst (Run ext g sched p))) sched (Printf ''Service starting'' p)"
  by (simp add: Run_def Let_def)

lemma nth_registered:
  "(xs @ [a, b, c, d, e]) ! length xs = a"
  "(xs @ [a, b, c, d, e]) ! Suc (length xs) = b"
  "(xs @ [a, b, c, d, e]) ! Suc (Suc (length xs)) = c"
  "(xs @ [a, b, c, d, e]) ! Suc (Suc (Suc (length xs))) = d"
  "(xs @ [a, b, c, d, e]) ! Suc (Suc (Suc (Suc (length xs)))) = e"
  by (simp_all add: nth_append)

text \<open>
  C10. \<open>Run\<close> appends five workers to those registered before, in this order: the
  debug-server listener, the debug-server closer, the service-server listener, the
  service-server closer and the signal watcher; what it returns is what the embedded
  group's \<open>Run\<close> returns on the group with these workers.
\<close>

theorem Run_registers_five_workers:
  "fn (Group (fst (Run ext g sched p))) =
     fn (Group g) @
       [debug_listener ext g (debugServer g),
        debug_closer ext g (debugServer g),
        service_listener ext g (serviceServer g),
        service_closer ext g (serviceServer g),
        signal_watcher ext] \<and>
   length (fn (Group (fst (Run ext g sched p)))) = length (fn (Group g)) + 5 \<and>
   snd (Run ext g sched p) =
     workgroup_Run (Group (fst (Run ext g sched p))) sched (Printf ''Service starting'' p)"
  by (simp add: Run_workers Run_delegates)

lemma listener_run:
  "call_ListenAndServe ext server (Printf msg q) =
     (case ListenAndServe ext server (world q) of
        None \<Rightarrow> None
      | Some (err, w) \<Rightarrow>
          Some (err, q\<lparr>world := w, trace := trace q @ [Log msg, ListenAndServeCall server]\<rparr>))"
  by (simp add: call_ListenAndServe_def Printf_def emit_def split: option.splits)

lemma servers_differ:
  "DebugServerAddr g \<noteq> ServiceServerAddr g \<Longrightarrow> debugServer g \<noteq> serviceServer g"
  by (auto simp add: debugServer_def serviceServer_def)

text \<open>
  C6. Of the workers \<open>Run\<close> registers, the first listens on the debug server: it calls
  \<^verbatim>\<open>ListenAndServe\<close> on it and on nothing else. The second is its closer: blocked
  while the stop channel is open, and once it is closed the closer runs \<open>shutdown\<close> on
  that same debug server, so that the calls the closer makes are the graceful
  \<^verbatim>\<open>Shutdown\<close> of the debug server under the group's timeout and, when that fails, the
  \<^verbatim>\<open>Close\<close> of the debug server. The third and the fourth are the listener and the
  closer of the service server, in the same way. The two servers are different values
  whenever the two addresses differ.
\<close>

theorem Run_pairs_listener_with_closer:
  "(fn (Group (fst (Run ext g sched p))) ! length (fn (Group g))) stop q
     = call_ListenAndServe ext (debugServer g)
         (Printf (''Starting debug server on '' @ DebugServerAddr g) q) \<and>
   (fn (Group (fst (Run ext g sched p))) ! (length (fn (Group g)) + 1)) False q = None \<and>
   (fn (Group (fst (Run ext g sched p))) ! (length (fn (Group g)) + 1)) True q
     = Some (shutdown ext g (debugServer g) ''debug HTTP server'' q) \<and>
   (fn (Group (fst (Run ext g sched p))) ! (length (fn (Group g)) + 2)) stop q
     = call_ListenAndServe ext (serviceServer g)
         (Printf (''Starting service HTTP server on '' @ ServiceServerAddr g) q) \<and>
   (fn (Group (fst (Run ext g sched p))) ! (length (fn (Group g)) + 3)) False q = None \<and>
   (fn (Group (fst (Run ext g sched p))) ! (length (fn (Group g)) + 3)) True q
     = Some (shutdown ext g (serviceServer g) ''service HTTP server'' q) \<and>
   (fn (Group (fst (Run ext g sched p))) ! length (fn (Group g))) stop q
     = (case ListenAndServe ext (debugServer g) (world q) of
          None \<Rightarrow> None
        | Some (err, w) \<Rightarrow>
            Some (err, q\<lparr>world := w, trace := trace q @
              [Log (''Starting debug server on '' @ DebugServerAddr g),
               ListenAndServeCall (debugServer g)]\<rparr>)) \<and>
   map_option (\<lambda>r. calls (emitted q (snd r)))
       ((fn (Group (fst (Run ext g sched p))) ! (length (fn (Group g)) + 1)) True q)
     = Some (ShutdownCall (debugServer g) (WithTimeout Background (ShutdownTimeout g)) #
         (case fst (Shutdown ext (debugServer g) (WithTimeout Background (ShutdownTimeout g))
                      (world q)) of
            None \<Rightarrow> []
          | Some e \<Rightarrow> [CloseCall (debugServer g)])) \<and>
   (fn (Group (fst (Run ext g sched p))) ! (length (fn (Group g)) + 2)) stop q
     = (case ListenAndServe ext (serviceServer g) (world q) of
          None \<Rightarrow> None
        | Some (err, w) \<Rightarrow>
            Some (err, q\<lparr>world := w, trace := trace q @
              [Log (''Starting service HTTP server on '' @ ServiceServerAddr g),
               ListenAndServeCall (serviceServer g)]\<rparr>)) \<and>
   map_option (\<lambda>r. calls (emitted q (snd r)))
       ((fn (Group (fst (Run ext g sched p))) ! (length (fn (Group g)) + 3)) True q)
     = Some (ShutdownCall (serviceServer g) (WithTimeout Background (ShutdownTimeout g)) #
         (case fst (Shutdown ext (serviceServer g) (WithTimeout Background (ShutdownTimeout g))
                      (world q)) of
            None \<Rightarrow> []
          | Some e \<Rightarrow> [CloseCall (serviceServer g)])) \<and>
   (DebugServerAddr g \<noteq> ServiceServerAddr g \<longrightarrow> debugServer g \<noteq> serviceServer g)"
proof -
  let ?ws = "fn (Group (fst (Run ext g sched p)))"
  let ?n = "length (fn (Group g))"
  have dl: "(?ws ! ?n) = debug_listener ext g (debugServer g)"
    and dc: "(?ws ! (?n + 1)) = debug_closer ext g (debugServer g)"
    and sl: "(?ws ! (?n + 2)) = service_listener ext g (serviceServer g)"
    and sc: "(?ws ! (?n + 3)) = service_closer ext g (serviceServer g)"
    by (simp_all add: Run_workers nth_registered)
  show ?thesis
    unfolding dl dc sl sc
    by (intro conjI)
      (simp_all add: debug_listener_def debug_closer_def service_listener_def service_closer_def
        listener_run shutdown_calls servers_differ split: option.splits)
qed

theorem Run_pairs_listener_with_closer_witness:
  "DebugServerAddr example_group \<noteq> ServiceServerAddr example_group \<and>
   debugServer example_group \<noteq> serviceServer example_group \<and>
   (fn (Group (fst (Run (example_ext (Some ''context deadline exceeded'') None None)
        example_group [] example_proc))) ! (length (fn (Group example_group)) + 1))
      False example_proc = None \<and>
   map_option (\<lambda>r. calls (emitted example_proc (snd r)))
     ((fn (Group (fst (Run (example_ext (Some ''context deadline exceeded'') None None)
        example_group [] example_proc))) ! (length (fn (Group example_group)) + 1))
      True example_proc)
     = Some [ShutdownCall (debugServer example_group)
               (WithTimeout Background (ShutdownTimeout example_group)),
             CloseCall (debugServer example_group)] \<and>
   map_option (\<lambda>r. calls (emitted example_proc (snd r)))
     ((fn (Group (fst (Run (example_ext None None None)
        example_group [] example_proc))) ! (length (fn (Group example_group)) + 3))
      True example_proc)
     = Some [ShutdownCall (serviceServer example_group)
               (WithTimeout Background (ShutdownTimeout example_group))]"
proof -
  note t1 = Run_pairs_listener_with_closer
    [of "example_ext (Some ''context deadline exceeded'') None None"
      example_group "[]" example_proc False example_proc]
  note t2 = Run_pairs_listener_with_closer [of "example_ext None None None"
      example_group "[]" example_proc False example_proc]
  have a: "DebugServerAddr example_group \<noteq> ServiceServerAddr example_group"
    by (simp add: example_group_def NewGroup_def)
  have b: "debugServer example_group \<noteq> serviceServer example_group"
    using t1 [THEN conjunct2, THEN conjunct2, THEN conjunct2, THEN conjunct2, THEN conjunct2, THEN conjunct2, THEN conjunct2, THEN conjunct2, THEN conjunct2, THEN conjunct2, THEN mp, OF a] .
  have c: "(fn (Group (fst (Run (example_ext (Some ''context deadline exceeded'') None None)
        example_group [] example_proc))) ! (length (fn (Group example_group)) + 1))
      False example_proc = None"
    using t1 [THEN conjunct2, THEN conjunct1] .
  have g1: "fst (Shutdown (example_ext (Some ''context deadline exceeded'') None None)
      (debugServer example_group) (WithTimeout Background (ShutdownTimeout example_group))
      (world example_proc)) = Some ''context deadline exceeded''"
    by (simp add: example_ext_def)
  have g2: "fst (Shutdown (example_ext None None None)
      (serviceServer example_group) (WithTimeout Background (ShutdownTimeout example_group))
      (world example_proc)) = None"
    by (simp add: example_ext_def)
  have d: "map_option (\<lambda>r. calls (emitted example_proc (snd r)))
     ((fn (Group (fst (Run (example_ext (Some ''context deadline exceeded'') None None)
        example_group [] example_proc))) ! (length (fn (Group example_group)) + 1))
      True example_proc)
     = Some [ShutdownCall (debugServer example_group)
               (WithTimeout Background (ShutdownTimeout example_group)),
             CloseCall (debugServer example_group)]"
    using t1 [THEN conjunct2, THEN conjunct2, THEN conjunct2, THEN conjunct2, THEN conjunct2, THEN conjunct2, THEN conjunct2, THEN conjunct1, unfolded g1] by simp
  have e: "map_option (\<lambda>r. calls (emitted example_proc (snd r)))
     ((fn (Group (fst (Run (example_ext None None None)
        example_group [] example_proc))) ! (length (fn (Group example_group)) + 3))
      True example_proc)
     = Some [ShutdownCall (serviceServer example_group)
               (WithTimeout Background (ShutdownTimeout example_group))]"
    using t2 [THEN conjunct2, THEN conjunct2, THEN conjunct2, THEN conjunct2, THEN conjunct2, THEN conjunct2, THEN conjunct2, THEN conjunct2, THEN conjunct2, THEN conjunct1, unfolded g2] by simp
  from a b c d e show ?thesis by (intro conjI)
qed


lemma signal_watcher_cases:
  "signal_watcher ext stop p =
     (case Interrupt ext (world p) of
        None \<Rightarrow>
          if stop
          then Some (Some ''shutting down OS signal watcher on workgroup stop'',
                 p\<lparr>trace := trace p @
                     [NotifyCall [SIGINT, SIGTERM], Log ''Watching for OS interrupt signals...'']\<rparr>)
          else None
      | Some (i, w) \<Rightarrow>
          if stop \<and> SelectStop ext (world p)
          then Some (Some ''shutting down OS signal watcher on workgroup stop'',
                 p\<lparr>trace := trace p @
                     [NotifyCall [SIGINT, SIGTERM], Log ''Watching for OS interrupt signals...'']\<rparr>)
          else Some (Some (''stopping on OS signal '' @ Signal_String ext i),
                 p\<lparr>world := w, trace := trace p @
                     [NotifyCall [SIGINT, SIGTERM], Log ''Watching for OS interrupt signals...'',
                      Log (''Received OS signal '' @ Signal_String ext i
                             @ ''; beginning shutdown...'')]\<rparr>))"
  by (simp add: signal_watcher_def Printf_def emit_def Errorf_def Let_def split: option.splits)

text \<open>
  C7. The fifth worker \<open>Run\<close> registers is the signal watcher. When a signal \<open>i\<close> is
  waiting and the \<^verbatim>\<open>select\<close> takes it, the watcher returns the error
  \<^verbatim>\<open>stopping on OS signal\<close> followed by the \<^verbatim>\<open>String()\<close> of \<open>i\<close>; when the stop channel
  is closed and the \<^verbatim>\<open>select\<close> takes that case, it returns the error
  \<^verbatim>\<open>shutting down OS signal watcher on workgroup stop\<close>. It is blocked exactly while the
  stop channel is open and no signal is waiting, and it never returns nil.
\<close>

theorem signal_watcher_returns_error:
  "(fn (Group (fst (Run ext g sched p))) ! (length (fn (Group g)) + 4)) = signal_watcher ext \<and>
   (\<forall>i w. Interrupt ext (world q) = Some (i, w) \<and> \<not> (stop \<and> SelectStop ext (world q)) \<longrightarrow>
      map_option fst (signal_watcher ext stop q)
        = Some (Some (''stopping on OS signal '' @ Signal_String ext i))) \<and>
   (stop \<and> (Interrupt ext (world q) = None \<or> SelectStop ext (world q)) \<longrightarrow>
      map_option fst (signal_watcher ext stop q)
        = Some (Some ''shutting down OS signal watcher on workgroup stop'')) \<and>
   (signal_watcher ext stop q = None \<longleftrightarrow> \<not> stop \<and> Interrupt ext (world q) = None) \<and>
   (\<forall>q'. signal_watcher ext stop q \<noteq> Some (None, q'))"
  by (auto simp add: Run_workers nth_registered signal_watcher_cases split: option.splits)

theorem signal_watcher_returns_error_witness:
  "Interrupt (example_ext None None (Some SIGTERM)) (world example_proc) = Some (SIGTERM, 0) \<and>
   map_option fst (signal_watcher (example_ext None None (Some SIGTERM)) False example_proc)
     = Some (Some ''stopping on OS signal terminated'') \<and>
   Interrupt (example_ext None None None) (world example_proc) = None \<and>
   map_option fst (signal_watcher (example_ext None None None) True example_proc)
     = Some (Some ''shutting down OS signal watcher on workgroup stop'')"
  using signal_watcher_returns_error [of "example_ext None None (Some SIGTERM)" example_group "[]"
          example_proc example_proc False]
        signal_watcher_returns_error [of "example_ext None None None" example_group "[]"
          example_proc example_proc True]
  by (simp add: example_ext_def example_proc_def)

section \<open>The run of the group\<close>

subsection \<open>The result slot is written once\<close>

lemma task_returns_slot_kept: "slot s = Some r \<Longrightarrow> slot (task_returns i e s) = Some r"
  by (simp add: task_returns_def)

lemma workgroup_step_slot_kept: "slot s = Some r \<Longrightarrow> slot (workgroup_step wg i s) = Some r"
  by (simp add: workgroup_step_def task_returns_def split: option.splits)

lemma workgroup_exec_slot_kept: "slot s = Some r \<Longrightarrow> slot (workgroup_exec wg sched s) = Some r"
  unfolding workgroup_exec_def
  by (induction sched arbitrary: s) (simp_all add: workgroup_step_slot_kept)

lemma workgroup_exec_append:
  "workgroup_exec wg (sched1 @ sched2) s = workgroup_exec wg sched2 (workgroup_exec wg sched1 s)"
  by (simp add: workgroup_exec_def)

subsection \<open>Invariants of a run\<close>

text \<open>
  In every state of a run over \<open>n\<close> tasks: the running tasks are those that have not
  terminated, the slot holds the outcome of the first termination, no task terminates
  twice, and only tasks of the group terminate.
\<close>

lemma workgroup_step_invariant:
  assumes "set (running s) = {j. j < n \<and> j \<notin> fst ` set (history s)}"
    and "slot s = first_outcome (history s)"
    and "distinct (map fst (history s))"
    and "fst ` set (history s) \<subseteq> {..<n}"
  shows "set (running (workgroup_step wg i s))
           = {j. j < n \<and> j \<notin> fst ` set (history (workgroup_step wg i s))} \<and>
         slot (workgroup_step wg i s) = first_outcome (history (workgroup_step wg i s)) \<and>
         distinct (map fst (history (workgroup_step wg i s))) \<and>
         fst ` set (history (workgroup_step wg i s)) \<subseteq> {..<n}"
  using assms
  by (auto simp add: workgroup_step_def task_returns_def first_outcome_def
      split: option.splits list.splits)

lemma workgroup_exec_invariant:
  assumes "set (running s) = {j. j < n \<and> j \<notin> fst ` set (history s)}"
    and "slot s = first_outcome (history s)"
    and "distinct (map fst (history s))"
    and "fst ` set (history s) \<subseteq> {..<n}"
  shows "set (running (workgroup_exec wg sched s))
           = {j. j < n \<and> j \<notin> fst ` set (history (workgroup_exec wg sched s))} \<and>
         slot (workgroup_exec wg sched s) = first_outcome (history (workgroup_exec wg sched s)) \<and>
         distinct (map fst (history (workgroup_exec wg sched s))) \<and>
         fst ` set (history (workgroup_exec wg sched s)) \<subseteq> {..<n}"
  using assms
proof (induction sched arbitrary: s)
  case Nil
  then show ?case by (simp add: workgroup_exec_def)
next
  case (Cons i sched)
  have "workgroup_exec wg (i # sched) s = workgroup_exec wg sched (workgroup_step wg i s)"
    by (simp add: workgroup_exec_def)
  moreover note workgroup_step_invariant [OF Cons.prems, of wg i]
  ultimately show ?case using Cons.IH [of "workgroup_step wg i s"] by simp
qed

lemma workgroup_start_invariant:
  "set (running (workgroup_start wg p))
     = {j. j < length (fn wg) \<and> j \<notin> fst ` set (history (workgroup_start wg p))}"
  "slot (workgroup_start wg p) = first_outcome (history (workgroup_start wg p))"
  "distinct (map fst (history (workgroup_start wg p)))"
  "fst ` set (history (workgroup_start wg p)) \<subseteq> {..<length (fn wg)}"
  by (auto simp add: workgroup_start_def first_outcome_def)

lemma run_invariant:
  "set (running (workgroup_exec wg sched (workgroup_start wg p)))
     = {j. j < length (fn wg)
          \<and> j \<notin> fst ` set (history (workgroup_exec wg sched (workgroup_start wg p)))}"
  "slot (workgroup_exec wg sched (workgroup_start wg p))
     = first_outcome (history (workgroup_exec wg sched (workgroup_start wg p)))"
  "distinct (map fst (history (workgroup_exec wg sched (workgroup_start wg p))))"
  "fst ` set (history (workgroup_exec wg sched (workgroup_start wg p))) \<subseteq> {..<length (fn wg)}"
  using workgroup_exec_invariant [OF workgroup_start_invariant, where wg = wg and sched = sched]
  by simp_all

lemma drained_iff_all_returned:
  "running (workgroup_exec wg sched (workgroup_start wg p)) = [] \<longleftrightarrow>
   fst ` set (history (workgroup_exec wg sched (workgroup_start wg p))) = {..<length (fn wg)}"
proof -
  have "running (workgroup_exec wg sched (workgroup_start wg p)) = [] \<longleftrightarrow>
        set (running (workgroup_exec wg sched (workgroup_start wg p))) = {}"
    by simp
  also have "\<dots> \<longleftrightarrow>
      {..<length (fn wg)} \<subseteq> fst ` set (history (workgroup_exec wg sched (workgroup_start wg p)))"
    unfolding run_invariant(1) by auto
  finally show ?thesis
    using run_invariant(4) [of wg sched p] by auto
qed

lemma workgroup_Run_result:
  "workgroup_Run wg sched p =
     (if fst ` set (history (workgroup_exec wg sched (workgroup_start wg p))) = {..<length (fn wg)}
      then Some (first_outcome (history (workgroup_exec wg sched (workgroup_start wg p))),
                 state (workgroup_exec wg sched (workgroup_start wg p)))
      else None)"
  by (simp add: workgroup_Run_def Let_def drained_iff_all_returned [symmetric] run_invariant(2))

text \<open>
  Until a task terminates the run stays in its start state, so the first termination is
  that of a task of the group run in the start state with the stop channel open, and the
  history records the error that task returned.
\<close>

lemma first_termination_step:
  assumes "(history s = [] \<and> s = workgroup_start wg p0) \<or>
           (\<exists>i e rest p'. history s = (i, e) # rest \<and> i < length (fn wg) \<and>
              (fn wg ! i) False p0 = Some (e, p'))"
  shows "(history (workgroup_step wg j s) = [] \<and> workgroup_step wg j s = workgroup_start wg p0) \<or>
         (\<exists>i e rest p'. history (workgroup_step wg j s) = (i, e) # rest \<and> i < length (fn wg) \<and>
            (fn wg ! i) False p0 = Some (e, p'))"
  using assms
proof (elim disjE)
  assume a: "history s = [] \<and> s = workgroup_start wg p0"
  show ?thesis
  proof (cases "j \<in> set (running s)")
    case False
    with a show ?thesis by (simp add: workgroup_step_def workgroup_start_def)
  next
    case True
    with a have j: "j < length (fn wg)" by (simp add: workgroup_start_def)
    show ?thesis
    proof (cases "(fn wg ! j) False p0")
      case None
      with a True show ?thesis by (simp add: workgroup_step_def workgroup_start_def)
    next
      case (Some r)
      obtain e p' where r: "r = (e, p')" by (cases r)
      with Some a True j show ?thesis
        by (simp add: workgroup_step_def workgroup_start_def task_returns_def)
    qed
  qed
next
  assume "\<exists>i e rest p'. history s = (i, e) # rest \<and> i < length (fn wg) \<and>
              (fn wg ! i) False p0 = Some (e, p')"
  then show ?thesis
    by (auto simp add: workgroup_step_def task_returns_def split: option.splits)
qed

lemma first_termination_exec:
  assumes "(history s = [] \<and> s = workgroup_start wg p0) \<or>
           (\<exists>i e rest p'. history s = (i, e) # rest \<and> i < length (fn wg) \<and>
              (fn wg ! i) False p0 = Some (e, p'))"
  shows "(history (workgroup_exec wg sched s) = [] \<and> workgroup_exec wg sched s = workgroup_start wg p0) \<or>
         (\<exists>i e rest p'. history (workgroup_exec wg sched s) = (i, e) # rest \<and> i < length (fn wg) \<and>
            (fn wg ! i) False p0 = Some (e, p'))"
  using assms
proof (induction sched arbitrary: s)
  case Nil
  then show ?case by (simp add: workgroup_exec_def)
next
  case (Cons j sched)
  have "workgroup_exec wg (j # sched) s = workgroup_exec wg sched (workgroup_step wg j s)"
    by (simp add: workgroup_exec_def)
  with Cons.IH [OF first_termination_step [OF Cons.prems]] show ?case by simp
qed

lemma first_termination:
  assumes "history (workgroup_exec wg sched (workgroup_start wg p0)) = (i, e) # rest"
  shows "i < length (fn wg) \<and> map_option fst ((fn wg ! i) False p0) = Some e"
proof -
  have "(history (workgroup_start wg p0) = [] \<and> workgroup_start wg p0 = workgroup_start wg p0) \<or>
        (\<exists>i e rest p'. history (workgroup_start wg p0) = (i, e) # rest \<and> i < length (fn wg) \<and>
            (fn wg ! i) False p0 = Some (e, p'))"
    by (simp add: workgroup_start_def)
  from first_termination_exec [OF this, of sched] assms show ?thesis by auto
qed

subsection \<open>An example run\<close>

text \<open>
  In the example world with a \<^verbatim>\<open>SIGINT\<close> waiting, under the schedule that lets the signal
  watcher return first, then the debug closer, the debug listener, the service closer and
  the service listener.
\<close>

lemma example_run_history:
  "history (workgroup_exec
      (Group (fst (Run (example_ext None None (Some SIGINT)) example_group [4, 1, 0, 3, 2] example_proc)))
      [4, 1, 0, 3, 2]
      (workgroup_start
        (Group (fst (Run (example_ext None None (Some SIGINT)) example_group [4, 1, 0, 3, 2] example_proc)))
        (Printf ''Service starting'' example_proc)))
   = [(4, Some ''stopping on OS signal interrupt''),
      (1, Some ''debug HTTP server on workgroup graceful shut down successful''),
      (0, Some ''http: Server closed''),
      (3, Some ''service HTTP server on workgroup graceful shut down successful''),
      (2, Some ''http: Server closed'')]"
  by code_simp

lemma example_run_length:
  "length (fn (Group (fst (Run (example_ext None None (Some SIGINT)) example_group [4, 1, 0, 3, 2]
      example_proc)))) = 5"
  by (simp add: Run_workers example_group_def NewGroup_def)

lemma example_all_returned:
  "fst ` set [(4::nat, a), (1, b), (0, c), (3, d), (2, e)] = {..<5}"
  by auto

lemma example_first_slot:
  "slot (workgroup_exec
      (Group (fst (Run (example_ext None None (Some SIGINT)) example_group [] example_proc)))
      [4]
      (workgroup_start
        (Group (fst (Run (example_ext None None (Some SIGINT)) example_group [] example_proc)))
        example_proc))
   = Some (Some ''stopping on OS signal interrupt'')"
  by code_simp

text \<open>
  The same world with no signal waiting and a task of the caller's registered before
  \<open>Run\<close>: the task returns nil first, then the signal watcher, the closers and the
  listeners return.
\<close>

lemma example_task_run_history:
  "history (workgroup_exec
      (Group (fst (Run (example_ext None None None) (Add example_task example_group)
         [0, 5, 2, 1, 4, 3] example_proc)))
      [0, 5, 2, 1, 4, 3]
      (workgroup_start
        (Group (fst (Run (example_ext None None None) (Add example_task example_group)
           [0, 5, 2, 1, 4, 3] example_proc)))
        (Printf ''Service starting'' example_proc)))
   = [(0, None),
      (5, Some ''shutting down OS signal watcher on workgroup stop''),
      (2, Some ''debug HTTP server on workgroup graceful shut down successful''),
      (1, Some ''http: Server closed''),
      (4, Some ''service HTTP server on workgroup graceful shut down successful''),
      (3, Some ''http: Server closed'')]"
  by code_simp

lemma example_task_run_length:
  "length (fn (Group (fst (Run (example_ext None None None) (Add example_task example_group)
      [0, 5, 2, 1, 4, 3] example_proc)))) = 6"
  by (simp add: Run_workers example_group_def NewGroup_def Add_def workgroup_Add_def)

lemma example_task_all_returned:
  "fst ` set [(0::nat, a), (5, b), (2, c), (1, d), (4, e), (3, f)] = {..<6}"
  by auto

text \<open>
  C1. \<open>Run\<close> starts every registered task, with the Stop Signal not raised: the tasks
  the caller registered before, as they were and in their order, followed by its own
  five. Under any schedule, no task terminates twice; \<open>Run\<close> returns exactly when
  every task has terminated, and then it returns the outcome of the first termination as
  it is (nil for nil, the error otherwise), which is the error that task returned when
  run from the start state with the stop channel open; until then the caller is blocked.
\<close>

theorem Run_returns_first_outcome:
  "let wg = Group (fst (Run ext g sched p));
       p1 = Printf ''Service starting'' p;
       s0 = workgroup_start wg p1;
       s = workgroup_exec wg sched s0
   in fn wg = fn (Group g) @
        [debug_listener ext g (debugServer g),
         debug_closer ext g (debugServer g),
         service_listener ext g (serviceServer g),
         service_closer ext g (serviceServer g),
         signal_watcher ext] \<and>
      running s0 = [0..<length (fn (Group g)) + 5] \<and>
      running s0 = [0..<length (fn wg)] \<and> \<not> stopped s0 \<and>
      distinct (map fst (history s)) \<and>
      (if fst ` set (history s) = {..<length (fn wg)}
       then (case history s of
               [] \<Rightarrow> False
             | (i, e) # _ \<Rightarrow>
                 snd (Run ext g sched p) = Some (Some e, state s) \<and>
                 i < length (fn wg) \<and>
                 map_option fst ((fn wg ! i) False p1) = Some e)
       else snd (Run ext g sched p) = None)"
proof -
  let ?wg = "Group (fst (Run ext g sched p))"
  let ?p1 = "Printf ''Service starting'' p"
  let ?s = "workgroup_exec ?wg sched (workgroup_start ?wg ?p1)"
  have n: "length (fn ?wg) = length (fn (Group g)) + 5"
    by (simp add: Run_workers)
  have ne: "history ?s \<noteq> []" if "fst ` set (history ?s) = {..<length (fn ?wg)}"
  proof
    assume "history ?s = []"
    with that have "{..<length (fn ?wg)} = {}" by simp
    with n show False by (simp add: lessThan_empty_iff)
  qed
  have w: "fn ?wg = fn (Group g) @
        [debug_listener ext g (debugServer g),
         debug_closer ext g (debugServer g),
         service_listener ext g (serviceServer g),
         service_closer ext g (serviceServer g),
         signal_watcher ext]"
    by (rule Run_workers)
  have a: "running (workgroup_start ?wg ?p1) = [0..<length (fn ?wg)]"
    by (simp add: workgroup_start_def)
  have a': "running (workgroup_start ?wg ?p1) = [0..<length (fn (Group g)) + 5]"
    using a n by simp
  have a'': "\<not> stopped (workgroup_start ?wg ?p1)"
    by (simp add: workgroup_start_def)
  have b: "distinct (map fst (history ?s))"
    by (rule run_invariant(3))
  have c: "(if fst ` set (history ?s) = {..<length (fn ?wg)}
            then (case history ?s of [] \<Rightarrow> False
                  | (i, e) # _ \<Rightarrow>
                      snd (Run ext g sched p) = Some (Some e, state ?s) \<and>
                      i < length (fn ?wg) \<and>
                      map_option fst ((fn ?wg ! i) False ?p1) = Some e)
            else snd (Run ext g sched p) = None)"
  proof (cases "fst ` set (history ?s) = {..<length (fn ?wg)}")
    case True
    with ne obtain i e rest where h: "history ?s = (i, e) # rest"
      by (cases "history ?s") auto
    have "snd (Run ext g sched p) = Some (first_outcome (history ?s), state ?s)"
      using True by (simp add: Run_delegates workgroup_Run_result)
    with True h first_termination [OF h] show ?thesis by (simp add: first_outcome_def)
  next
    case False
    then have "snd (Run ext g sched p) = None"
      by (simp add: Run_delegates workgroup_Run_result)
    with False show ?thesis by simp
  qed
  show ?thesis unfolding Let_def
    using w a a' a'' b c by (intro conjI)
qed

theorem Run_returns_first_outcome_witness:
  "map_option fst (snd (Run (example_ext None None (Some SIGINT)) example_group [4, 1, 0, 3, 2]
      example_proc))
   = Some (Some (Some ''stopping on OS signal interrupt'')) \<and>
   map_option fst (snd (Run (example_ext None None None) (Add example_task example_group)
      [0, 5, 2, 1, 4, 3] example_proc))
   = Some (Some None)"
  using Run_returns_first_outcome [of "example_ext None None (Some SIGINT)" example_group
      "[4, 1, 0, 3, 2]" example_proc,
      unfolded Let_def example_run_history example_run_length example_all_returned]
    Run_returns_first_outcome [of "example_ext None None None" "Add example_task example_group"
      "[0, 5, 2, 1, 4, 3]" example_proc,
      unfolded Let_def example_task_run_history example_task_run_length example_task_all_returned]
  by simp


text \<open>
  C5. Once the result slot holds an outcome \<open>r\<close>, it holds \<open>r\<close> after the termination
  of any task with any outcome, and after any further schedule; so when the rest of a run
  lets \<open>Run\<close> return, it returns \<open>r\<close>.
\<close>

theorem result_slot_write_once:
  assumes "slot s = Some r"
  shows "slot (task_returns i e s) = Some r \<and>
         slot (workgroup_exec wg sched s) = Some r \<and>
         (\<forall>p sched0 res.
            s = workgroup_exec wg sched0 (workgroup_start wg p) \<and>
            workgroup_Run wg (sched0 @ sched) p = Some res \<longrightarrow> fst res = Some r)"
proof -
  have "fst res = Some r"
    if "s = workgroup_exec wg sched0 (workgroup_start wg p)"
      and "workgroup_Run wg (sched0 @ sched) p = Some res" for p sched0 res
  proof -
    have "slot (workgroup_exec wg (sched0 @ sched) (workgroup_start wg p)) = Some r"
      using assms that(1) by (simp add: workgroup_exec_append workgroup_exec_slot_kept)
    with that(2) show ?thesis
      by (auto simp add: workgroup_Run_def Let_def split: if_splits)
  qed
  with assms show ?thesis
    by (simp add: task_returns_slot_kept workgroup_exec_slot_kept)
qed

theorem result_slot_write_once_witness:
  "slot (workgroup_exec
      (Group (fst (Run (example_ext None None (Some SIGINT)) example_group [] example_proc)))
      [4]
      (workgroup_start
        (Group (fst (Run (example_ext None None (Some SIGINT)) example_group [] example_proc)))
        example_proc))
   = Some (Some ''stopping on OS signal interrupt'') \<and>
   slot (workgroup_exec
      (Group (fst (Run (example_ext None None (Some SIGINT)) example_group [] example_proc)))
      [1, 0, 3, 2]
      (workgroup_exec
        (Group (fst (Run (example_ext None None (Some SIGINT)) example_group [] example_proc)))
        [4]
        (workgroup_start
          (Group (fst (Run (example_ext None None (Some SIGINT)) example_group [] example_proc)))
          example_proc)))
   = Some (Some ''stopping on OS signal interrupt'')"
  using example_first_slot
    result_slot_write_once [OF example_first_slot, THEN conjunct2, THEN conjunct1]
  by (rule conjI)

end
